theory Spec2Isabelle
  imports Main "HOL-Library.Word"
begin

unbundle bit_operations_syntax

section \<open>The SM2 signature scheme of \<open>sm/sm2/sm2.go\<close>\<close>

text \<open>
  The Go package signs and verifies over an \<open>elliptic.Curve\<close> interface value, with
  \<open>math/big\<close> integers and an \<open>io.Reader\<close> as the entropy source. The model keeps
  these three layers apart: the library primitives the code calls, the curve as an
  interface value, and the functions of \<open>sm2.go\<close> themselves.
\<close>

subsection \<open>Errors and panics\<close>

datatype panic = NilPointerDereference | DivisionByZero | MakeSliceLenOutOfRange

datatype error =
    EOF
  | ErrUnexpectedEOF
  | ErrShortHash
  | Asn1SyntaxError
  | Asn1StructuralError
  | Asn1InternalError
  | FieldDivisionByZero
  | Panic panic

subsection \<open>Library primitives: bytes, \<open>math/big\<close>, \<open>io\<close>\<close>

type_synonym byte = "8 word"

text \<open>
  An \<open>io.Reader\<close> is modelled by the bytes it will still deliver before it reports the
  end of its input; reading advances it.
\<close>

type_synonym reader = "byte list"

text \<open>
  \<open>io.ReadFull(rand, b)\<close> fills all \<open>m = len(b)\<close> bytes or fails: with \<open>EOF\<close> when no
  byte could be read and with \<open>ErrUnexpectedEOF\<close> after a partial read. The reader is
  returned as the call leaves it.
\<close>

definition ReadFull :: "reader \<Rightarrow> nat \<Rightarrow> (error + byte list) \<times> reader" where
  "ReadFull rand m =
     (if m \<le> length rand then (Inr (take m rand), drop m rand)
      else (Inl (if rand = [] then EOF else ErrUnexpectedEOF), []))"

text \<open>\<open>new(big.Int).SetBytes(b)\<close>: the bytes read as an unsigned big-endian integer.\<close>

definition SetBytes :: "byte list \<Rightarrow> int" where
  "SetBytes bs = foldl (\<lambda>acc b. acc * 256 + uint b) 0 bs"

text \<open>\<open>x.Bytes()\<close>: the absolute value of \<open>x\<close> as a big-endian byte slice of minimal length.\<close>

function nat_bytes :: "nat \<Rightarrow> byte list" where
  "nat_bytes v = (if v = 0 then [] else nat_bytes (v div 256) @ [of_nat (v mod 256)])"
  by pat_completeness auto
termination
  by (relation "measure id") auto

declare nat_bytes.simps [simp del]

definition Bytes :: "int \<Rightarrow> byte list" where
  "Bytes x = nat_bytes (nat \<bar>x\<bar>)"

text \<open>
  \<open>z.Mod(x, y)\<close> is the Euclidean modulus, in \<open>[0, |y|)\<close>; it panics with a division by
  zero when \<open>y = 0\<close>.
\<close>

definition Mod :: "int \<Rightarrow> int \<Rightarrow> error + int" where
  "Mod x y = (if y = 0 then Inl (Panic DivisionByZero) else Inr (x mod \<bar>y\<bar>))"

text \<open>The extended Euclidean algorithm: \<open>egcd a b = (d, x, y)\<close> with \<open>a * x + b * y = d\<close>.\<close>

function egcd :: "int \<Rightarrow> int \<Rightarrow> int \<times> int \<times> int" where
  "egcd a b =
     (if b = 0 then (a, 1, 0)
      else (case egcd b (a mod b) of (d, x, y) \<Rightarrow> (d, y, x - (a div b) * y)))"
  by pat_completeness auto
termination
  by (relation "measure (\<lambda>(a, b). nat \<bar>b\<bar>)") (auto simp: abs_mod_less)

declare egcd.simps [simp del]

text \<open>
  \<open>z.ModInverse(g, n)\<close> sets \<open>z\<close> to the inverse of \<open>g\<close> in the ring of integers modulo
  \<open>n\<close>, in \<open>[0, |n|)\<close>. When \<open>g\<close> and \<open>n\<close> are not relatively prime there is no inverse:
  \<open>z\<close> is left unchanged (and the call returns nil). A zero modulus panics. The
  function returns the value of the receiver \<open>z\<close> after the call.
\<close>

definition ModInverse :: "int \<Rightarrow> int \<Rightarrow> int \<Rightarrow> error + int" where
  "ModInverse z g n =
     (if n = 0 then Inl (Panic DivisionByZero)
      else (case egcd (g mod \<bar>n\<bar>) \<bar>n\<bar> of
              (d, x, y) \<Rightarrow> if d = 1 then Inr (x mod \<bar>n\<bar>) else Inr z))"

text \<open>Sequencing of calls that may fail: the first failure is the result.\<close>

definition bind_res :: "error + 'a \<Rightarrow> ('a \<Rightarrow> error + 'b) \<Rightarrow> error + 'b" where
  "bind_res m f = (case m of Inl e \<Rightarrow> Inl e | Inr v \<Rightarrow> f v)"

text \<open>Go's integer division truncates towards zero.\<close>

definition go_quot :: "int \<Rightarrow> int \<Rightarrow> int" where
  "go_quot a b = sgn a * sgn b * (\<bar>a\<bar> div \<bar>b\<bar>)"

subsection \<open>The curve interface\<close>

text \<open>
  \<open>elliptic.CurveParams\<close>, with the coefficient \<open>a\<close> of the curve equation as the
  specification's domain parameters list it.
\<close>

record CurveParams =
  P :: int
  N :: int
  A :: int
  B :: int
  Gx :: int
  Gy :: int
  BitSize :: int

text \<open>
  \<open>elliptic.Curve\<close>: the methods \<open>sm2.go\<close> calls. Points are pairs of coordinates and
  scalars are big-endian byte slices, as in the interface.
\<close>

record Curve =
  Params :: CurveParams
  Add :: "int \<times> int \<Rightarrow> int \<times> int \<Rightarrow> int \<times> int"
  ScalarMult :: "int \<times> int \<Rightarrow> byte list \<Rightarrow> int \<times> int"
  ScalarBaseMult :: "byte list \<Rightarrow> int \<times> int"

subsection \<open>The curve \<open>P256Sm2()\<close>\<close>

text \<open>
  Modelled from the spec: the source of \<open>P256Sm2()\<close>, the curve implementation behind
  the \<open>elliptic.Curve\<close> interface, is not among the source files. The field and point
  operations below follow the specification's FieldArithmetic and CurveGeometry
  components: operations reduced into \<open>[0, modulus)\<close>, an inverse that fails with a
  division by zero on a zero element, affine points with a distinguished point at
  infinity, addition with its four special cases, and double-and-add scalar
  multiplication.
\<close>

definition fadd :: "int \<Rightarrow> int \<Rightarrow> int \<Rightarrow> int" where
  "fadd m x y = (x + y) mod m"

definition fsub :: "int \<Rightarrow> int \<Rightarrow> int \<Rightarrow> int" where
  "fsub m x y = (x - y) mod m"

definition fmul :: "int \<Rightarrow> int \<Rightarrow> int \<Rightarrow> int" where
  "fmul m x y = (x * y) mod m"

definition finverse :: "int \<Rightarrow> int \<Rightarrow> error + int" where
  "finverse m x =
     (if x mod m = 0 then Inl FieldDivisionByZero
      else (case egcd (x mod m) m of (d, u, v) \<Rightarrow> Inr (u mod m)))"

datatype AffinePoint = Infinity | Affine int int

definition isOnCurve :: "CurveParams \<Rightarrow> AffinePoint \<Rightarrow> bool" where
  "isOnCurve cp pt =
     (case pt of
        Infinity \<Rightarrow> True
      | Affine x y \<Rightarrow>
          fmul (P cp) y y =
          fadd (P cp) (fadd (P cp) (fmul (P cp) x (fmul (P cp) x x)) (fmul (P cp) (A cp) x)) (B cp))"

definition double :: "CurveParams \<Rightarrow> AffinePoint \<Rightarrow> error + AffinePoint" where
  "double cp pt =
     (case pt of
        Infinity \<Rightarrow> Inr Infinity
      | Affine x y \<Rightarrow>
          (let p = P cp in
           if fmul p 2 y = 0 then Inr Infinity
           else bind_res (finverse p (fmul p 2 y)) (\<lambda>i.
             (let l = fmul p (fadd p (fmul p 3 (fmul p x x)) (A cp)) i;
                  x3 = fsub p (fmul p l l) (fadd p x x);
                  y3 = fsub p (fmul p l (fsub p x x3)) y
              in Inr (Affine x3 y3)))))"

definition add :: "CurveParams \<Rightarrow> AffinePoint \<Rightarrow> AffinePoint \<Rightarrow> error + AffinePoint" where
  "add cp pt qt =
     (case pt of
        Infinity \<Rightarrow> Inr qt
      | Affine x1 y1 \<Rightarrow>
          (case qt of
             Infinity \<Rightarrow> Inr pt
           | Affine x2 y2 \<Rightarrow>
               (let p = P cp in
                if x1 = x2 \<and> y1 = y2 then double cp pt
                else if x1 = x2 \<and> fadd p y1 y2 = 0 then Inr Infinity
                else bind_res (finverse p (fsub p x2 x1)) (\<lambda>i.
                  (let l = fmul p (fsub p y2 y1) i;
                       x3 = fsub p (fsub p (fmul p l l) x1) x2;
                       y3 = fsub p (fmul p l (fsub p x1 x3)) y1
                   in Inr (Affine x3 y3))))))"

function scalarMultiply :: "CurveParams \<Rightarrow> nat \<Rightarrow> AffinePoint \<Rightarrow> error + AffinePoint" where
  "scalarMultiply cp k pt =
     (if k = 0 then Inr Infinity
      else (case scalarMultiply cp (k div 2) pt of
              Inl err \<Rightarrow> Inl err
            | Inr q \<Rightarrow>
                (case double cp q of
                   Inl err \<Rightarrow> Inl err
                 | Inr q2 \<Rightarrow> if odd k then add cp q2 pt else Inr q2)))"
  by pat_completeness auto
termination
  by (relation "measure (\<lambda>(cp, k, pt). k)") auto

declare scalarMultiply.simps [simp del]

definition scalarMultiplyBase :: "CurveParams \<Rightarrow> nat \<Rightarrow> error + AffinePoint" where
  "scalarMultiplyBase cp k = scalarMultiply cp k (Affine (Gx cp) (Gy cp))"

text \<open>
  The interface exchanges coordinate pairs: the pair \<open>(0, 0)\<close> stands for the point at
  infinity, in both directions. The interface's methods return a point in every case,
  so a failure of the arithmetic layer is returned as \<open>(0, 0)\<close> too.
\<close>

definition of_xy :: "int \<times> int \<Rightarrow> AffinePoint" where
  "of_xy xy = (if fst xy = 0 \<and> snd xy = 0 then Infinity else Affine (fst xy) (snd xy))"

definition to_xy :: "error + AffinePoint \<Rightarrow> int \<times> int" where
  "to_xy res = (case res of Inr (Affine x y) \<Rightarrow> (x, y) | _ \<Rightarrow> (0, 0))"

definition curve_of :: "CurveParams \<Rightarrow> Curve" where
  "curve_of cp =
     \<lparr>Params = cp,
      Add = (\<lambda>pt qt. to_xy (add cp (of_xy pt) (of_xy qt))),
      ScalarMult = (\<lambda>pt k. to_xy (scalarMultiply cp (nat (SetBytes k)) (of_xy pt))),
      ScalarBaseMult = (\<lambda>k. to_xy (scalarMultiplyBase cp (nat (SetBytes k))))\<rparr>"

text \<open>The domain parameters of the standardized 256-bit curve of the scheme.\<close>

definition sm2_params :: CurveParams where
  "sm2_params =
     \<lparr>P = 0xFFFFFFFEFFFFFFFFFFFFFFFFFFFFFFFFFFFFFFFF00000000FFFFFFFFFFFFFFFF,
      N = 0xFFFFFFFEFFFFFFFFFFFFFFFFFFFFFFFF7203DF6B21C6052B53BBF40939D54123,
      A = 0xFFFFFFFEFFFFFFFFFFFFFFFFFFFFFFFFFFFFFFFF00000000FFFFFFFFFFFFFFFC,
      B = 0x28E9FA9E9D9F5E344D5A9E4BCF6509A7F39789F515AB8F92DDBCBD414D940E93,
      Gx = 0x32C4AE2C1F1981195F9904466A39C9948FE30BBFF2660BE1715A4589334C74C7,
      Gy = 0xBC3736A2F4F6779C59BDCEE36B692153D0A9877CC62A474002DF32E52139F0A0,
      BitSize = 256\<rparr>"

definition P256Sm2 :: Curve where
  "P256Sm2 = curve_of sm2_params"

subsection \<open>Keys and signatures\<close>

record PublicKey =
  Curve :: Curve
  X :: int
  Y :: int

record PrivateKey =
  PublicKey :: PublicKey
  D :: int

record sm2Signature =
  R :: int
  S :: int

subsection \<open>Random scalars\<close>

text \<open>
  \<open>randFieldElement\<close> reads \<open>BitSize/8 + 8\<close> bytes and maps them into \<open>[1, N - 1]\<close>; a
  failed read is returned as the error. \<open>make\<close> panics on a negative length.
\<close>

definition randFieldElement :: "Curve \<Rightarrow> reader \<Rightarrow> (error + int) \<times> reader" where
  "randFieldElement c rand =
     (let params = Params c;
          m = go_quot (BitSize params) 8 + 8
      in if m < 0 then (Inl (Panic MakeSliceLenOutOfRange), rand)
         else (case ReadFull rand (nat m) of
                 (Inl err, rand') \<Rightarrow> (Inl err, rand')
               | (Inr b, rand') \<Rightarrow>
                   (let k = SetBytes b;
                        n = N params - 1
                    in (bind_res (Mod k n) (\<lambda>k. Inr (k + 1)), rand'))))"

text \<open>
  \<open>generateRandK\<close> is the same computation with one result only: when the read fails
  it returns its named result \<open>k\<close> unset, that is a nil pointer (\<open>None\<close>), and the error
  is dropped.
\<close>

definition generateRandK :: "reader \<Rightarrow> Curve \<Rightarrow> (error + int option) \<times> reader" where
  "generateRandK rand c =
     (let params = Params c;
          m = go_quot (BitSize params) 8 + 8
      in if m < 0 then (Inl (Panic MakeSliceLenOutOfRange), rand)
         else (case ReadFull rand (nat m) of
                 (Inl err, rand') \<Rightarrow> (Inr None, rand')
               | (Inr b, rand') \<Rightarrow>
                   (let k = SetBytes b;
                        n = N params - 1
                    in (bind_res (Mod k n) (\<lambda>k. Inr (Some (k + 1))), rand'))))"

subsection \<open>Key generation, signing, verification\<close>

text \<open>
  \<open>GenerateKey\<close> takes the value of its call \<open>P256Sm2()\<close> as the argument \<open>p256\<close>.
\<close>

definition GenerateKey :: "Curve \<Rightarrow> reader \<Rightarrow> (error + PrivateKey) \<times> reader" where
  "GenerateKey p256 rand =
     (let c = p256 in
      case randFieldElement c rand of
        (Inl err, rand') \<Rightarrow> (Inl err, rand')
      | (Inr k, rand') \<Rightarrow>
          (let (x, y) = ScalarBaseMult c (Bytes k)
           in (Inr \<lparr>PublicKey = \<lparr>Curve = c, X = x, Y = y\<rparr>, D = k\<rparr>, rand')))"

text \<open>
  \<open>Sign\<close>: one nonce, one pass through the signing equations. \<open>k.Bytes()\<close> on the nil
  pointer that \<open>generateRandK\<close> returns after a failed read is a nil dereference.
\<close>

definition Sign :: "reader \<Rightarrow> PrivateKey \<Rightarrow> byte list \<Rightarrow> (error + int \<times> int) \<times> reader" where
  "Sign rand priv hash =
     (if length hash < 32 then (Inl ErrShortHash, rand)
      else
        (let tmp = take 32 hash;
             e = SetBytes tmp;
             c = Curve (PublicKey priv)
         in case generateRandK rand c of
              (Inl err, rand') \<Rightarrow> (Inl err, rand')
            | (Inr None, rand') \<Rightarrow> (Inl (Panic NilPointerDereference), rand')
            | (Inr (Some k), rand') \<Rightarrow>
                (let (x1, _) = ScalarBaseMult c (Bytes k);
                     n = N (Params c)
                 in (bind_res (Mod (e + x1) n) (\<lambda>r.
                     bind_res (Mod (r * D priv) n) (\<lambda>s1.
                     bind_res (Mod (k - s1) n) (\<lambda>s1.
                     bind_res (Mod (1 + D priv) n) (\<lambda>s2.
                     bind_res (ModInverse s2 s2 n) (\<lambda>s2.
                     bind_res (Mod (s1 * s2) n) (\<lambda>s.
                     Inr (r, s))))))), rand'))))"

text \<open>
  \<open>Verify\<close>: the two range checks, then the verification equation on the whole hash.
  The last \<open>Mod\<close> is reached with \<open>0 < r < N\<close> only, so its modulus is positive.
\<close>

definition Verify :: "PublicKey \<Rightarrow> byte list \<Rightarrow> int \<Rightarrow> int \<Rightarrow> bool" where
  "Verify pub hash r s =
     (let c = Curve pub;
          N = N (Params c)
      in if r \<le> 0 \<or> s \<le> 0 then False
         else if r \<ge> N \<or> s \<ge> N then False
         else
           (let n = N;
                e = SetBytes hash;
                t = r + s;
                (x11, y11) = ScalarMult c (X pub, Y pub) (Bytes t);
                (x12, y12) = ScalarBaseMult c (Bytes s);
                (x1, _) = Add c (x11, y11) (x12, y12);
                x = e + x1
            in (case Mod x n of Inl _ \<Rightarrow> False | Inr x \<Rightarrow> x = r)))"

subsection \<open>The signature envelope: \<open>encoding/asn1\<close>\<close>

text \<open>
  \<open>asn1.Marshal\<close> and \<open>asn1.Unmarshal\<close>, as they act on a value of type
  \<open>sm2Signature\<close>: a DER SEQUENCE of two INTEGERs. The parsing functions take the
  bytes from the current offset on and return the bytes after what they consumed.
\<close>

record tagAndLength =
  tl_class :: nat
  tl_tag :: nat
  tl_length :: nat
  tl_isCompound :: bool

text \<open>
  \<open>parseBase128Int\<close>: a tag number above 30 in base 128, at most five bytes, minimal,
  and not above the largest 32-bit signed integer.
\<close>

fun parseBase128Int :: "byte list \<Rightarrow> nat \<Rightarrow> nat \<Rightarrow> error + (nat \<times> byte list)" where
  "parseBase128Int [] shifted ret = Inl Asn1SyntaxError"
| "parseBase128Int (b # bs) shifted ret =
     (if shifted = 5 then Inl Asn1StructuralError
      else if shifted = 0 \<and> b = 0x80 then Inl Asn1SyntaxError
      else
        (let ret' = ret * 128 + unat (b AND 0x7F)
         in if b AND 0x80 = 0
            then (if ret' > 2147483647 then Inl Asn1StructuralError else Inr (ret', bs))
            else parseBase128Int bs (Suc shifted) ret'))"

text \<open>
  The long form of a length: \<open>numBytes\<close> bytes, big-endian, without leading zero bytes,
  and refused once a further shift could overflow a 32-bit integer.
\<close>

fun parseLongLength :: "nat \<Rightarrow> nat \<Rightarrow> byte list \<Rightarrow> error + (nat \<times> byte list)" where
  "parseLongLength 0 len bs = Inr (len, bs)"
| "parseLongLength (Suc numBytes) len [] = Inl Asn1SyntaxError"
| "parseLongLength (Suc numBytes) len (b # bs) =
     (if len \<ge> 2 ^ 23 then Inl Asn1StructuralError
      else
        (let len' = len * 256 + unat b
         in if len' = 0 then Inl Asn1StructuralError
            else parseLongLength numBytes len' bs))"

definition parseTagAndLength :: "byte list \<Rightarrow> error + (tagAndLength \<times> byte list)" where
  "parseTagAndLength bytes =
     (case bytes of
        [] \<Rightarrow> Inl Asn1InternalError
      | b # bs \<Rightarrow>
          bind_res
            (if b AND 0x1F = 0x1F
             then bind_res (parseBase128Int bs 0 0)
                    (\<lambda>(t, bs'). if t < 0x1F then Inl Asn1SyntaxError else Inr (t, bs'))
             else Inr (unat (b AND 0x1F), bs))
            (\<lambda>(t, bs').
               (case bs' of
                  [] \<Rightarrow> Inl Asn1SyntaxError
                | l # bs'' \<Rightarrow>
                    bind_res
                      (if l AND 0x80 = 0 then Inr (unat (l AND 0x7F), bs'')
                       else
                         (let numBytes = unat (l AND 0x7F)
                          in if numBytes = 0 then Inl Asn1SyntaxError
                             else bind_res (parseLongLength numBytes 0 bs'')
                                    (\<lambda>(len, bs3).
                                       if len < 0x80 then Inl Asn1StructuralError
                                       else Inr (len, bs3))))
                      (\<lambda>(len, bs3).
                         Inr (\<lparr>tl_class = unat (drop_bit 6 b), tl_tag = t, tl_length = len,
                               tl_isCompound = (b AND 0x20 = 0x20)\<rparr>, bs3)))))"

text \<open>\<open>checkInteger\<close> and \<open>parseBigInt\<close>: a non-empty, minimal two's complement integer.\<close>

definition checkInteger :: "byte list \<Rightarrow> error + unit" where
  "checkInteger bytes =
     (case bytes of
        [] \<Rightarrow> Inl Asn1StructuralError
      | [b] \<Rightarrow> Inr ()
      | b0 # b1 # _ \<Rightarrow>
          if (b0 = 0 \<and> b1 AND 0x80 = 0) \<or> (b0 = 0xFF \<and> b1 AND 0x80 = 0x80)
          then Inl Asn1StructuralError else Inr ())"

definition parseBigInt :: "byte list \<Rightarrow> error + int" where
  "parseBigInt bytes =
     bind_res (checkInteger bytes) (\<lambda>_.
       if bytes \<noteq> [] \<and> hd bytes AND 0x80 = 0x80
       then Inr (- (SetBytes (map (\<lambda>b. NOT b) bytes) + 1))
       else Inr (SetBytes bytes))"

text \<open>
  \<open>parseField\<close> for a field of type \<open>*big.Int\<close>: a universal, primitive element with
  tag 2 whose content lies within the bytes at hand.
\<close>

definition parseBigIntField :: "byte list \<Rightarrow> error + (int \<times> byte list)" where
  "parseBigIntField bytes =
     (if bytes = [] then Inl Asn1SyntaxError
      else bind_res (parseTagAndLength bytes) (\<lambda>(t, rest).
        if tl_class t \<noteq> 0 \<or> tl_tag t \<noteq> 2 \<or> tl_isCompound t then Inl Asn1StructuralError
        else if length rest < tl_length t then Inl Asn1SyntaxError
        else bind_res (parseBigInt (take (tl_length t) rest)) (\<lambda>v.
          Inr (v, drop (tl_length t) rest))))"

text \<open>
  \<open>asn1.Unmarshal(b, &sm2Sign)\<close>: \<open>parseField\<close> for the struct, a universal, constructed
  element with tag 16 whose content starts with the two integer fields. Bytes of the
  content after the second field are allowed; the bytes after the element are returned
  as \<open>rest\<close>.
\<close>

definition Unmarshal :: "byte list \<Rightarrow> error + (sm2Signature \<times> byte list)" where
  "Unmarshal b =
     (if b = [] then Inl Asn1SyntaxError
      else bind_res (parseTagAndLength b) (\<lambda>(t, rest).
        if tl_class t \<noteq> 0 \<or> tl_tag t \<noteq> 16 \<or> \<not> tl_isCompound t then Inl Asn1StructuralError
        else if length rest < tl_length t then Inl Asn1SyntaxError
        else
          (let innerBytes = take (tl_length t) rest
           in bind_res (parseBigIntField innerBytes) (\<lambda>(r, inner1).
              bind_res (parseBigIntField inner1) (\<lambda>(s, inner2).
                Inr (\<lparr>R = r, S = s\<rparr>, drop (tl_length t) rest))))))"

text \<open>
  \<open>asn1.Marshal\<close>: the content of an INTEGER is the minimal two's complement form of the
  number; a length below 128 is one byte, a longer one is preceded by the count of its
  bytes.
\<close>

definition marshalBigInt :: "int \<Rightarrow> byte list" where
  "marshalBigInt n =
     (if n < 0 then
        (let bytes = map (\<lambda>b. NOT b) (Bytes (- n - 1))
         in if bytes = [] \<or> hd bytes AND 0x80 = 0 then 0xFF # bytes else bytes)
      else if n = 0 then [0x00]
      else
        (let bytes = Bytes n
         in if bytes \<noteq> [] \<and> hd bytes AND 0x80 \<noteq> 0 then 0x00 # bytes else bytes))"

definition appendTagAndLength :: "byte \<Rightarrow> nat \<Rightarrow> byte list" where
  "appendTagAndLength tag len =
     (if len \<ge> 128 then tag # (0x80 OR of_nat (length (nat_bytes len))) # nat_bytes len
      else [tag, of_nat len])"

definition marshalField :: "byte \<Rightarrow> byte list \<Rightarrow> byte list" where
  "marshalField tag body = appendTagAndLength tag (length body) @ body"

definition Marshal :: "sm2Signature \<Rightarrow> byte list" where
  "Marshal sig =
     marshalField 0x30
       (marshalField 0x02 (marshalBigInt (R sig)) @ marshalField 0x02 (marshalBigInt (S sig)))"

subsection \<open>The methods of the keys\<close>

text \<open>\<open>(priv *PrivateKey) Sign\<close>: the signature of \<open>Sign\<close> in its envelope.\<close>

definition PrivateKey_Sign :: "PrivateKey \<Rightarrow> reader \<Rightarrow> byte list \<Rightarrow> (error + byte list) \<times> reader" where
  "PrivateKey_Sign priv rand msg =
     (case Sign rand priv msg of
        (Inl err, rand') \<Rightarrow> (Inl err, rand')
      | (Inr (r, s), rand') \<Rightarrow> (Inr (Marshal \<lparr>R = r, S = s\<rparr>), rand'))"

text \<open>
  \<open>(pub *PublicKey) Verify\<close>: a decoding error gives false; the \<open>rest\<close> that
  \<open>asn1.Unmarshal\<close> returns is discarded.
\<close>

definition PublicKey_Verify :: "PublicKey \<Rightarrow> byte list \<Rightarrow> byte list \<Rightarrow> bool" where
  "PublicKey_Verify pub msg sign =
     (case Unmarshal sign of
        Inl err \<Rightarrow> False
      | Inr (sm2Sign, _) \<Rightarrow> Verify pub msg (R sm2Sign) (S sm2Sign))"

subsection \<open>Concrete inputs\<close>

text \<open>
  The key that \<open>GenerateKey\<close> returns when the entropy source delivers zero bytes only:
  the private scalar is 1 and the public point is the base point.
\<close>

definition sm2_base_key :: PublicKey where
  "sm2_base_key = \<lparr>Curve = P256Sm2, X = Gx sm2_params, Y = Gy sm2_params\<rparr>"

definition sm2_one_key :: PrivateKey where
  "sm2_one_key = \<lparr>PublicKey = sm2_base_key, D = 1\<rparr>"

text \<open>
  Two hashes of 32 bytes: the big-endian bytes of \<open>N - Gx\<close> and of \<open>N + 1 - Gx\<close>, for
  the order \<open>N\<close> and the base point's coordinate \<open>Gx\<close> of the curve.
\<close>

definition hash_r_zero :: "byte list" where
  "hash_r_zero =
     [0xCD, 0x3B, 0x51, 0xD2, 0xE0, 0xE6, 0x7E, 0xE6, 0xA0, 0x66, 0xFB, 0xB9, 0x95, 0xC6, 0x36, 0x6A,
      0xE2, 0x20, 0xD3, 0xAB, 0x2F, 0x5F, 0xF9, 0x49, 0xE2, 0x61, 0xAE, 0x80, 0x06, 0x88, 0xCC, 0x5C]"

definition hash_s_zero :: "byte list" where
  "hash_s_zero =
     [0xCD, 0x3B, 0x51, 0xD2, 0xE0, 0xE6, 0x7E, 0xE6, 0xA0, 0x66, 0xFB, 0xB9, 0x95, 0xC6, 0x36, 0x6A,
      0xE2, 0x20, 0xD3, 0xAB, 0x2F, 0x5F, 0xF9, 0x49, 0xE2, 0x61, 0xAE, 0x80, 0x06, 0x88, 0xCC, 0x5D]"

text \<open>
  A public key on the same curve: the point whose double is the negative of the base
  point, that is the public point of the private scalar \<open>(N - 1) / 2\<close>.
\<close>

definition sm2_half_key :: PublicKey where
  "sm2_half_key =
     \<lparr>Curve = P256Sm2,
      X = 0xA3721DB9207E1C46E24F06EC2D2D4D785617828A72B72F62370952E0572E033,
      Y = 0x8CE19C69102762056B4EA4ED593676FD3F4CD5F2EA2AA138227401ACFD5708B4\<rparr>"

text \<open>The hash of 32 bytes whose integer value is 1.\<close>

definition hash_one :: "byte list" where
  "hash_one = replicate 31 0 @ [1]"

section \<open>Properties\<close>

subsection \<open>Failures of the primitives\<close>

lemma Mod_Inl: "Mod x y = Inl e \<Longrightarrow> e = Panic DivisionByZero"
  by (simp add: Mod_def split: if_splits)

lemma ModInverse_Inl: "ModInverse z g n = Inl e \<Longrightarrow> e = Panic DivisionByZero"
  by (simp add: ModInverse_def split: if_splits prod.splits)

lemma bind_res_Inl:
  "bind_res m f = Inl e \<Longrightarrow> m = Inl e \<or> (\<exists>v. m = Inr v \<and> f v = Inl e)"
  by (cases m) (simp_all add: bind_res_def)

lemma generateRandK_Inl:
  "generateRandK rand c = (Inl e, rand') \<Longrightarrow> \<exists>p. e = Panic p"
  by (auto simp: generateRandK_def Let_def ReadFull_def split: if_splits prod.splits sum.splits
      dest!: bind_res_Inl Mod_Inl)

lemma Sign_Inl:
  assumes "Sign rand priv hash = (Inl e, rand')" and "32 \<le> length hash"
  shows "\<exists>p. e = Panic p"
  using assms
  by (auto simp: Sign_def Let_def split: if_splits prod.splits sum.splits option.splits
      dest!: bind_res_Inl Mod_Inl ModInverse_Inl generateRandK_Inl)

subsection \<open>Evaluation on the curve of the scheme\<close>

lemma SetBytes_zeros: "SetBytes (replicate m 0) = 0"
proof -
  have "foldl (\<lambda>acc b. acc * 256 + uint (b::byte)) 0 (replicate m 0) = 0"
    by (induction m) simp_all
  then show ?thesis by (simp add: SetBytes_def)
qed

lemma Bytes_one: "Bytes 1 = [1]"
  by (simp add: Bytes_def nat_bytes.simps [of "Suc 0"] nat_bytes.simps [of 0])

lemma SetBytes_one: "SetBytes [1] = 1"
  by (simp add: SetBytes_def)

lemma scalarMultiply_one: "scalarMultiply cp (Suc 0) pt = Inr pt"
  by (simp add: scalarMultiply.simps [of cp "Suc 0"] scalarMultiply.simps [of cp 0]
      double_def add_def)

lemma sm2_base_point: "ScalarBaseMult P256Sm2 [1] = (Gx sm2_params, Gy sm2_params)"
  by (simp add: P256Sm2_def curve_of_def SetBytes_one scalarMultiplyBase_def
      scalarMultiply_one to_xy_def)

lemma sm2_read_length: "go_quot (BitSize (Params P256Sm2)) 8 + 8 = 40"
  by (simp add: P256Sm2_def curve_of_def sm2_params_def go_quot_def)

lemma sm2_N:
  "N (Params P256Sm2) = 0xFFFFFFFEFFFFFFFFFFFFFFFFFFFFFFFF7203DF6B21C6052B53BBF40939D54123"
  by (simp add: P256Sm2_def curve_of_def sm2_params_def)

lemma GenerateKey_zero: "GenerateKey P256Sm2 (replicate 40 0) = (Inr sm2_one_key, [])"
  by (simp add: GenerateKey_def randFieldElement_def Let_def sm2_read_length ReadFull_def
      SetBytes_zeros sm2_N Mod_def bind_res_def
      Bytes_one sm2_base_point sm2_one_key_def sm2_base_key_def)

subsection \<open>Length of the hash\<close>

text \<open>
  C7. A hash of fewer than 32 bytes makes \<open>Sign\<close> return the short-hash error with the
  entropy source untouched (no nonce is drawn), and for a hash of at least 32 bytes
  \<open>Sign\<close> never returns that error.
\<close>

theorem Sign_hash_length:
  "(length hash < 32 \<longrightarrow> Sign rand priv hash = (Inl ErrShortHash, rand)) \<and>
   (32 \<le> length hash \<longrightarrow> fst (Sign rand priv hash) \<noteq> Inl ErrShortHash)"
proof (intro conjI impI)
  assume "length hash < 32"
  then show "Sign rand priv hash = (Inl ErrShortHash, rand)"
    by (simp add: Sign_def)
next
  assume len: "32 \<le> length hash"
  show "fst (Sign rand priv hash) \<noteq> Inl ErrShortHash"
  proof
    assume "fst (Sign rand priv hash) = Inl ErrShortHash"
    then obtain rand' where "Sign rand priv hash = (Inl ErrShortHash, rand')"
      by (cases "Sign rand priv hash") simp
    from Sign_Inl [OF this len] show False by simp
  qed
qed

theorem Sign_hash_length_witness:
  "length (replicate 31 (0::byte)) < 32 \<and>
   Sign (replicate 40 0) sm2_one_key (replicate 31 0) = (Inl ErrShortHash, replicate 40 0) \<and>
   32 \<le> length (replicate 32 (0::byte)) \<and>
   fst (Sign (replicate 40 0) sm2_one_key (replicate 32 0)) \<noteq> Inl ErrShortHash"
  using Sign_hash_length [of "replicate 31 0" "replicate 40 0" sm2_one_key]
    Sign_hash_length [of "replicate 32 0" "replicate 40 0" sm2_one_key]
  by simp

subsection \<open>Range check of the verifier\<close>

text \<open>
  C5. \<open>Verify\<close> returns false whenever \<open>R\<close> or \<open>S\<close> lies outside \<open>[1, N - 1]\<close>, whatever
  the key and the hash are; in particular for \<open>R = 0\<close>, \<open>R = N\<close>, \<open>S = 0\<close> and \<open>S = N\<close>.
\<close>

theorem Verify_range:
  "r \<le> 0 \<or> N (Params (Curve pub)) \<le> r \<or> s \<le> 0 \<or> N (Params (Curve pub)) \<le> s
   \<Longrightarrow> Verify pub hash r s = False"
  by (auto simp: Verify_def Let_def)

theorem Verify_range_witness:
  "Verify sm2_base_key (replicate 32 0) 0 1 = False \<and>
   Verify sm2_base_key (replicate 32 0) (N (Params (Curve sm2_base_key))) 1 = False \<and>
   Verify sm2_base_key (replicate 32 0) 1 0 = False \<and>
   Verify sm2_base_key (replicate 32 0) 1 (N (Params (Curve sm2_base_key))) = False"
  using Verify_range [of 0 sm2_base_key 1 "replicate 32 0"]
    Verify_range [of "N (Params (Curve sm2_base_key))" sm2_base_key 1 "replicate 32 0"]
    Verify_range [of 1 sm2_base_key 0 "replicate 32 0"]
    Verify_range [of 1 sm2_base_key "N (Params (Curve sm2_base_key))" "replicate 32 0"]
  by simp

subsection \<open>Signing without entropy\<close>

text \<open>
  C3. With an entropy source that delivers nothing, \<open>Sign\<close> does not return an error
  value: \<open>generateRandK\<close> drops the read error and returns a nil scalar, and \<open>Sign\<close>
  panics on it with a nil dereference. \<open>GenerateKey\<close>, through \<open>randFieldElement\<close>,
  returns the read error for the same source.
\<close>

theorem Sign_without_entropy:
  "Sign [] sm2_one_key (replicate 32 0) = (Inl (Panic NilPointerDereference), []) \<and>
   GenerateKey P256Sm2 [] = (Inl EOF, [])"
  by (simp add: Sign_def generateRandK_def GenerateKey_def randFieldElement_def Let_def
      sm2_one_key_def sm2_base_key_def sm2_read_length ReadFull_def)

subsection \<open>Random scalars\<close>

lemma SetBytes_snoc: "SetBytes (bs @ [b]) = SetBytes bs * 256 + uint b"
  by (simp add: SetBytes_def)

text \<open>
  C6. With \<open>m = BitSize/8 + 8\<close> bytes available, both scalar generators consume exactly
  the first \<open>m\<close> bytes of the entropy source, read them as the big-endian integer \<open>b\<close>
  and return \<open>k = (b mod (N - 1)) + 1\<close>, which lies in \<open>[1, N - 1]\<close>.
\<close>

theorem random_scalar:
  assumes n: "1 < N (Params c)"
    and m: "m = go_quot (BitSize (Params c)) 8 + 8" "0 \<le> m"
    and rd: "nat m \<le> length rand"
    and k: "k = SetBytes (take (nat m) rand) mod (N (Params c) - 1) + 1"
  shows "randFieldElement c rand = (Inr k, drop (nat m) rand) \<and>
         generateRandK rand c = (Inr (Some k), drop (nat m) rand) \<and>
         1 \<le> k \<and> k \<le> N (Params c) - 1"
proof -
  let ?n = "N (Params c) - 1"
  let ?b = "SetBytes (take (nat m) rand)"
  have pos: "0 < ?n" using n by simp
  then have md: "Mod ?b ?n = Inr (?b mod ?n)"
    by (simp add: Mod_def)
  have rf: "ReadFull rand (nat m) = (Inr (take (nat m) rand), drop (nat m) rand)"
    using rd by (simp add: ReadFull_def)
  have r1: "randFieldElement c rand = (Inr k, drop (nat m) rand)"
    using m rf md k by (simp add: randFieldElement_def Let_def bind_res_def)
  have r2: "generateRandK rand c = (Inr (Some k), drop (nat m) rand)"
    using m rf md k by (simp add: generateRandK_def Let_def bind_res_def)
  have "0 \<le> ?b mod ?n" and "?b mod ?n < ?n"
    using pos by simp_all
  then have "1 \<le> k" and "k \<le> ?n"
    using k by simp_all
  with r1 r2 show ?thesis by simp
qed

theorem random_scalar_witness:
  "1 < N (Params P256Sm2) \<and>
   BitSize (Params P256Sm2) = 256 \<and>
   2 ^ 255 \<le> N (Params P256Sm2) \<and> N (Params P256Sm2) < 2 ^ 256 \<and>
   randFieldElement P256Sm2 (replicate 39 0 @ [5, 7]) = (Inr 6, [7]) \<and>
   generateRandK (replicate 39 0 @ [5, 7]) P256Sm2 = (Inr (Some 6), [7])"
proof -
  have n: "1 < N (Params P256Sm2)" by (simp add: sm2_N)
  have tk: "take 40 (replicate 39 0 @ [5, 7 :: byte]) = replicate 39 0 @ [5]"
    by simp
  have k: "(6::int) =
      SetBytes (take (nat 40) (replicate 39 0 @ [5, 7])) mod (N (Params P256Sm2) - 1) + 1"
    by (simp add: tk SetBytes_snoc SetBytes_zeros sm2_N)
  have rd: "nat 40 \<le> length (replicate 39 (0::byte) @ [5, 7])" by simp
  have bits: "BitSize (Params P256Sm2) = 256"
    by (simp add: P256Sm2_def curve_of_def sm2_params_def)
  have bound: "2 ^ 255 \<le> N (Params P256Sm2) \<and> N (Params P256Sm2) < 2 ^ 256"
    by (simp add: sm2_N)
  show ?thesis
    using random_scalar [OF n sm2_read_length [symmetric] _ rd k] n bits bound by simp
qed

subsection \<open>The extended Euclidean algorithm and the modular inverse\<close>

lemma egcd_bezout: "egcd a b = (d, x, y) \<Longrightarrow> a * x + b * y = d"
proof (induction a b arbitrary: d x y rule: egcd.induct)
  case (1 a b)
  show ?case
  proof (cases "b = 0")
    case True
    with "1.prems" show ?thesis by (simp add: egcd.simps [of a 0])
  next
    case False
    obtain d' x' y' where rec: "egcd b (a mod b) = (d', x', y')"
      by (cases "egcd b (a mod b)") auto
    from "1.IH" [OF False rec] have ih: "b * x' + (a mod b) * y' = d'" .
    from "1.prems" False rec have eq: "d = d'" "x = y'" "y = x' - (a div b) * y'"
      by (auto simp: egcd.simps [of a b])
    have "a = b * (a div b) + a mod b" by simp
    then have ay: "a * y' = b * (a div b) * y' + (a mod b) * y'"
      by (metis distrib_right)
    have "a * x + b * y = a * y' + b * x' - b * (a div b) * y'"
      unfolding eq by (simp add: algebra_simps)
    also have "\<dots> = b * x' + (a mod b) * y'"
      using ay by simp
    finally show ?thesis using ih eq by simp
  qed
qed

lemma egcd_gcd: "0 \<le> a \<Longrightarrow> 0 \<le> b \<Longrightarrow> egcd a b = (d, x, y) \<Longrightarrow> d = gcd a b"
proof (induction a b arbitrary: d x y rule: egcd.induct)
  case (1 a b)
  show ?case
  proof (cases "b = 0")
    case True
    with "1.prems" show ?thesis by (simp add: egcd.simps [of a 0])
  next
    case False
    obtain d' x' y' where rec: "egcd b (a mod b) = (d', x', y')"
      by (cases "egcd b (a mod b)") auto
    from False "1.prems" have "0 < b" by simp
    then have "0 \<le> a mod b" by simp
    from "1.IH" [OF False "1.prems"(2) this rec] have "d' = gcd b (a mod b)" .
    moreover from "1.prems" False rec have "d = d'"
      by (simp add: egcd.simps [of a b])
    moreover have "gcd a b = gcd b (a mod b)" by (rule gcd_red_int)
    ultimately show ?thesis by simp
  qed
qed


lemma mod_hint: "x = q * m + r \<Longrightarrow> 0 \<le> r \<Longrightarrow> r < m \<Longrightarrow> x mod m = (r::int)"
  by (simp add: mod_pos_pos_trivial)

lemma ModInverse_coprime:
  assumes "n \<noteq> 0" and "coprime g n"
  shows "\<exists>i. ModInverse z g n = Inr i \<and> 0 \<le> i \<and> i < \<bar>n\<bar> \<and> (g * i) mod \<bar>n\<bar> = 1 mod \<bar>n\<bar>"
proof -
  let ?m = "\<bar>n\<bar>"
  let ?a = "g mod ?m"
  have m: "0 < ?m" using assms(1) by simp
  obtain d x y where e: "egcd ?a ?m = (d, x, y)"
    by (cases "egcd ?a ?m") auto
  have a: "0 \<le> ?a" using m by simp
  have "d = gcd ?a ?m" using egcd_gcd [OF a _ e] by simp
  also have "\<dots> = gcd g ?m" by (metis gcd.commute gcd_red_int)
  also have "\<dots> = 1" using assms(2) by (simp add: coprime_iff_gcd_eq_1)
  finally have d: "d = 1" .
  from egcd_bezout [OF e] d have bz: "?a * x + ?m * y = 1" by simp
  have "(g * (x mod ?m)) mod ?m = (g * x) mod ?m"
    by (rule mod_mult_right_eq)
  also have "\<dots> = (?a * x) mod ?m"
    by (rule mod_mult_left_eq [symmetric])
  also have "\<dots> = (?a * x + ?m * y) mod ?m" by simp
  also have "\<dots> = 1 mod ?m" using bz by simp
  finally have inv: "(g * (x mod ?m)) mod ?m = 1 mod ?m" .
  have "ModInverse z g n = Inr (x mod ?m)"
    using assms(1) e d by (simp add: ModInverse_def)
  moreover have "0 \<le> x mod ?m" "x mod ?m < ?m" using m by simp_all
  ultimately show ?thesis using inv by blast
qed

lemma ModInverse_not_coprime:
  assumes "n \<noteq> 0" and "\<not> coprime g n"
  shows "ModInverse z g n = Inr z"
proof -
  let ?m = "\<bar>n\<bar>"
  let ?a = "g mod ?m"
  have m: "0 < ?m" using assms(1) by simp
  obtain d x y where e: "egcd ?a ?m = (d, x, y)"
    by (cases "egcd ?a ?m") auto
  have a: "0 \<le> ?a" using m by simp
  have "d = gcd ?a ?m" using egcd_gcd [OF a _ e] by simp
  also have "\<dots> = gcd g ?m" by (metis gcd.commute gcd_red_int)
  finally have "d \<noteq> 1" using assms(2) by (simp add: coprime_iff_gcd_eq_1)
  then show ?thesis using assms(1) e by (simp add: ModInverse_def)
qed

lemma ModInverse_unique:
  assumes m: "1 < m" and i: "0 \<le> i" "i < m" and gi: "(g * i) mod m = 1"
  shows "ModInverse z g m = Inr i"
proof -
  have cop: "coprime g m"
  proof (rule coprimeI)
    fix c assume c: "c dvd g" "c dvd m"
    then have "c dvd g * i" by simp
    then have "c dvd (g * i) mod m" using c(2) by (simp add: dvd_mod)
    then show "is_unit c" using gi by simp
  qed
  from m have m0: "m \<noteq> 0" and am: "\<bar>m\<bar> = m" by simp_all
  from ModInverse_coprime [OF m0 cop, of z] obtain j where
    j: "ModInverse z g m = Inr j" "0 \<le> j" "j < m" "(g * j) mod m = 1 mod m"
    using am by auto
  have "j mod m = (j * ((g * i) mod m)) mod m" using gi by simp
  also have "\<dots> = (j * (g * i)) mod m" by (simp add: mod_mult_right_eq)
  also have "\<dots> = ((g * j) * i) mod m" by (simp add: mult_ac)
  also have "\<dots> = (((g * j) mod m) * i) mod m" by (rule mod_mult_left_eq [symmetric])
  also have "\<dots> = (1 * i) mod m" using j(4) by (metis mod_mult_left_eq)
  finally have "j mod m = i mod m" by simp
  then have "j = i" using i j(2,3) by (simp add: mod_pos_pos_trivial)
  with j(1) show ?thesis by simp
qed

subsection \<open>The result of one signing attempt\<close>

lemma ModInverse_total: "n \<noteq> 0 \<Longrightarrow> \<exists>v. ModInverse z g n = Inr v"
  by (simp add: ModInverse_def split: prod.splits)

lemma ModInverse_range:
  assumes "0 < n" "0 \<le> z" "z < n" "ModInverse z g n = Inr v"
  shows "0 \<le> v \<and> v < n"
  using assms by (auto simp: ModInverse_def split: prod.splits if_splits)

lemma Sign_result:
  assumes len: "32 \<le> length hash"
    and k: "generateRandK rand (Curve (PublicKey priv)) = (Inr (Some k), rand')"
    and n: "N (Params (Curve (PublicKey priv))) = n" "0 < n"
    and x1: "fst (ScalarBaseMult (Curve (PublicKey priv)) (Bytes k)) = x1"
    and r: "r = (SetBytes (take 32 hash) + x1) mod n"
    and inv: "ModInverse ((1 + D priv) mod n) ((1 + D priv) mod n) n = Inr s2"
    and s: "s = ((k - (r * D priv) mod n) mod n * s2) mod n"
  shows "Sign rand priv hash = (Inr (r, s), rand')"
proof -
  have md: "\<And>x. Mod x n = Inr (x mod n)"
    using n(2) by (simp add: Mod_def)
  obtain a b where sb: "ScalarBaseMult (Curve (PublicKey priv)) (Bytes k) = (a, b)"
    by (cases "ScalarBaseMult (Curve (PublicKey priv)) (Bytes k)") auto
  with x1 have a: "a = x1" by simp
  show ?thesis
    using len k n(1) sb a r inv s
    by (simp add: Sign_def Let_def md bind_res_def)
qed

lemma generateRandK_zero: "generateRandK (replicate 40 0) P256Sm2 = (Inr (Some 1), [])"
  by (simp add: generateRandK_def Let_def sm2_read_length ReadFull_def
      SetBytes_zeros sm2_N Mod_def bind_res_def)

lemma SetBytes_hash_r_zero:
  "SetBytes hash_r_zero = 0xcd3b51d2e0e67ee6a066fbb995c6366ae220d3ab2f5ff949e261ae800688cc5c"
  by (simp add: SetBytes_def hash_r_zero_def)

lemma SetBytes_hash_s_zero:
  "SetBytes hash_s_zero = 0xcd3b51d2e0e67ee6a066fbb995c6366ae220d3ab2f5ff949e261ae800688cc5d"
  by (simp add: SetBytes_def hash_s_zero_def)

lemma sm2_inverse_two:
  "ModInverse 2 2 0xFFFFFFFEFFFFFFFFFFFFFFFFFFFFFFFF7203DF6B21C6052B53BBF40939D54123
   = Inr 0x7fffffff7fffffffffffffffffffffffb901efb590e30295a9ddfa049ceaa092"
  by (rule ModInverse_unique) (simp_all add: mod_hint [where q = 1 and r = 1])

lemma sm2_Gx: "Gx sm2_params = 0x32C4AE2C1F1981195F9904466A39C9948FE30BBFF2660BE1715A4589334C74C7"
  by (simp add: sm2_params_def)

lemma sm2_one_key_fields:
  "Curve (PublicKey sm2_one_key) = P256Sm2" "D sm2_one_key = 1"
  "Curve sm2_base_key = P256Sm2" "X sm2_base_key = Gx sm2_params" "Y sm2_base_key = Gy sm2_params"
  by (simp_all add: sm2_one_key_def sm2_base_key_def)

lemma small_mod: "0 \<le> x \<Longrightarrow> x < m \<Longrightarrow> x mod m = (x::int)"
  by (rule mod_pos_pos_trivial)

lemma Sign_zero_R:
  "Sign (replicate 40 0) sm2_one_key hash_r_zero =
     (Inr (0, 0x7fffffff7fffffffffffffffffffffffb901efb590e30295a9ddfa049ceaa092), [])"
proof (rule Sign_result [where k = 1 and ?x1.0 = "Gx sm2_params" and
      n = "0xFFFFFFFEFFFFFFFFFFFFFFFFFFFFFFFF7203DF6B21C6052B53BBF40939D54123" and
      ?s2.0 = "0x7fffffff7fffffffffffffffffffffffb901efb590e30295a9ddfa049ceaa092"])
  show "32 \<le> length hash_r_zero" by (simp add: hash_r_zero_def)
  show "generateRandK (replicate 40 0) (Curve (PublicKey sm2_one_key)) = (Inr (Some 1), [])"
    by (simp add: sm2_one_key_fields generateRandK_zero)
  show "N (Params (Curve (PublicKey sm2_one_key))) =
      0xFFFFFFFEFFFFFFFFFFFFFFFFFFFFFFFF7203DF6B21C6052B53BBF40939D54123"
    by (simp add: sm2_one_key_fields sm2_N)
  show "(0::int) < 0xFFFFFFFEFFFFFFFFFFFFFFFFFFFFFFFF7203DF6B21C6052B53BBF40939D54123" by simp
  show "fst (ScalarBaseMult (Curve (PublicKey sm2_one_key)) (Bytes 1)) = Gx sm2_params"
    by (simp add: sm2_one_key_fields Bytes_one sm2_base_point)
  have tk: "take 32 hash_r_zero = hash_r_zero" by (simp add: hash_r_zero_def)
  show "0 = (SetBytes (take 32 hash_r_zero) + Gx sm2_params) mod
      0xFFFFFFFEFFFFFFFFFFFFFFFFFFFFFFFF7203DF6B21C6052B53BBF40939D54123"
    by (simp add: tk SetBytes_hash_r_zero sm2_Gx)
  show "ModInverse ((1 + D sm2_one_key) mod 0xFFFFFFFEFFFFFFFFFFFFFFFFFFFFFFFF7203DF6B21C6052B53BBF40939D54123)
      ((1 + D sm2_one_key) mod 0xFFFFFFFEFFFFFFFFFFFFFFFFFFFFFFFF7203DF6B21C6052B53BBF40939D54123)
      0xFFFFFFFEFFFFFFFFFFFFFFFFFFFFFFFF7203DF6B21C6052B53BBF40939D54123 =
      Inr 0x7fffffff7fffffffffffffffffffffffb901efb590e30295a9ddfa049ceaa092"
    by (simp add: sm2_one_key_fields small_mod sm2_inverse_two)
  show "0x7fffffff7fffffffffffffffffffffffb901efb590e30295a9ddfa049ceaa092 =
      (1 - 0 * D sm2_one_key mod 0xFFFFFFFEFFFFFFFFFFFFFFFFFFFFFFFF7203DF6B21C6052B53BBF40939D54123) mod
        0xFFFFFFFEFFFFFFFFFFFFFFFFFFFFFFFF7203DF6B21C6052B53BBF40939D54123 *
        0x7fffffff7fffffffffffffffffffffffb901efb590e30295a9ddfa049ceaa092 mod
        0xFFFFFFFEFFFFFFFFFFFFFFFFFFFFFFFF7203DF6B21C6052B53BBF40939D54123"
    by (simp add: small_mod)
qed

lemma Sign_zero_S:
  "Sign (replicate 40 0) sm2_one_key hash_s_zero = (Inr (1, 0), [])"
proof (rule Sign_result [where k = 1 and ?x1.0 = "Gx sm2_params" and
      n = "0xFFFFFFFEFFFFFFFFFFFFFFFFFFFFFFFF7203DF6B21C6052B53BBF40939D54123" and
      ?s2.0 = "0x7fffffff7fffffffffffffffffffffffb901efb590e30295a9ddfa049ceaa092"])
  show "32 \<le> length hash_s_zero" by (simp add: hash_s_zero_def)
  show "generateRandK (replicate 40 0) (Curve (PublicKey sm2_one_key)) = (Inr (Some 1), [])"
    by (simp add: sm2_one_key_fields generateRandK_zero)
  show "N (Params (Curve (PublicKey sm2_one_key))) =
      0xFFFFFFFEFFFFFFFFFFFFFFFFFFFFFFFF7203DF6B21C6052B53BBF40939D54123"
    by (simp add: sm2_one_key_fields sm2_N)
  show "(0::int) < 0xFFFFFFFEFFFFFFFFFFFFFFFFFFFFFFFF7203DF6B21C6052B53BBF40939D54123" by simp
  show "fst (ScalarBaseMult (Curve (PublicKey sm2_one_key)) (Bytes 1)) = Gx sm2_params"
    by (simp add: sm2_one_key_fields Bytes_one sm2_base_point)
  have tk: "take 32 hash_s_zero = hash_s_zero" by (simp add: hash_s_zero_def)
  show r: "1 = (SetBytes (take 32 hash_s_zero) + Gx sm2_params) mod
      0xFFFFFFFEFFFFFFFFFFFFFFFFFFFFFFFF7203DF6B21C6052B53BBF40939D54123"
    by (simp add: tk SetBytes_hash_s_zero sm2_Gx mod_hint [where q = 1 and r = 1])
  show "ModInverse ((1 + D sm2_one_key) mod 0xFFFFFFFEFFFFFFFFFFFFFFFFFFFFFFFF7203DF6B21C6052B53BBF40939D54123)
      ((1 + D sm2_one_key) mod 0xFFFFFFFEFFFFFFFFFFFFFFFFFFFFFFFF7203DF6B21C6052B53BBF40939D54123)
      0xFFFFFFFEFFFFFFFFFFFFFFFFFFFFFFFF7203DF6B21C6052B53BBF40939D54123 =
      Inr 0x7fffffff7fffffffffffffffffffffffb901efb590e30295a9ddfa049ceaa092"
    by (simp add: sm2_one_key_fields small_mod sm2_inverse_two)
  show "0 =
      (1 - 1 * D sm2_one_key mod 0xFFFFFFFEFFFFFFFFFFFFFFFFFFFFFFFF7203DF6B21C6052B53BBF40939D54123) mod
        0xFFFFFFFEFFFFFFFFFFFFFFFFFFFFFFFF7203DF6B21C6052B53BBF40939D54123 *
        0x7fffffff7fffffffffffffffffffffffb901efb590e30295a9ddfa049ceaa092 mod
        0xFFFFFFFEFFFFFFFFFFFFFFFFFFFFFFFF7203DF6B21C6052B53BBF40939D54123"
    by (simp add: sm2_one_key_fields small_mod)
qed

lemma generateRandK_success:
  assumes n: "1 < N (Params c)"
    and m: "m = go_quot (BitSize (Params c)) 8 + 8" "0 \<le> m"
    and rd: "nat m \<le> length rand"
    and k: "k = SetBytes (take (nat m) rand) mod (N (Params c) - 1) + 1"
  shows "generateRandK rand c = (Inr (Some k), drop (nat m) rand)" and "1 \<le> k" and "k < N (Params c)"
proof -
  let ?n = "N (Params c) - 1"
  let ?b = "SetBytes (take (nat m) rand)"
  have pos: "0 < ?n" using n by simp
  then have md: "Mod ?b ?n = Inr (?b mod ?n)"
    by (simp add: Mod_def)
  have rf: "ReadFull rand (nat m) = (Inr (take (nat m) rand), drop (nat m) rand)"
    using rd by (simp add: ReadFull_def)
  show "generateRandK rand c = (Inr (Some k), drop (nat m) rand)"
    using m rf md k by (simp add: generateRandK_def Let_def bind_res_def)
  have "0 \<le> ?b mod ?n" and "?b mod ?n < ?n"
    using pos by simp_all
  then show "1 \<le> k" and "k < N (Params c)"
    using k by simp_all
qed

lemma Sign_equation:
  assumes len: "32 \<le> length hash"
    and k: "generateRandK rand (Curve (PublicKey priv)) = (Inr (Some k), rand')"
    and n: "N (Params (Curve (PublicKey priv))) = n" "0 < n"
  shows "\<exists>r s. Sign rand priv hash = (Inr (r, s), rand') \<and>
      r = (SetBytes (take 32 hash) + fst (ScalarBaseMult (Curve (PublicKey priv)) (Bytes k))) mod n \<and>
      0 \<le> r \<and> r < n \<and> 0 \<le> s \<and> s < n \<and>
      (coprime (1 + D priv) n \<longrightarrow> (s * (1 + D priv)) mod n = (k - r * D priv) mod n)"
proof -
  define r where "r = (SetBytes (take 32 hash) + fst (ScalarBaseMult (Curve (PublicKey priv)) (Bytes k))) mod n"
  define s1 where "s1 = (k - (r * D priv) mod n) mod n"
  define g where "g = (1 + D priv) mod n"
  from n(2) have n0: "n \<noteq> 0" and an: "\<bar>n\<bar> = n" by simp_all
  obtain s2 where s2: "ModInverse g g n = Inr s2"
    using ModInverse_total [OF n0] by blast
  define s where "s = (s1 * s2) mod n"
  have sign: "Sign rand priv hash = (Inr (r, s), rand')"
    by (rule Sign_result [OF len k n refl r_def]) (simp_all add: s2 [unfolded g_def] s_def s1_def)
  have rng: "0 \<le> r" "r < n" "0 \<le> s" "s < n"
    using n(2) by (simp_all add: r_def s_def)
  have eqn: "(s * (1 + D priv)) mod n = (k - r * D priv) mod n" if cop: "coprime (1 + D priv) n"
  proof -
    have "coprime g n" using cop by (simp add: g_def coprime_mod_left_iff n0)
    from ModInverse_coprime [OF n0 this, of g] s2 an
    have gi: "(g * s2) mod n = 1 mod n" by auto
    have "(s * (1 + D priv)) mod n = ((s1 * s2) * (1 + D priv)) mod n"
      unfolding s_def by (rule mod_mult_left_eq)
    also have "\<dots> = (s1 * (s2 * (1 + D priv))) mod n" by (simp add: mult.assoc)
    also have "\<dots> = (s1 * ((s2 * (1 + D priv)) mod n)) mod n"
      by (rule mod_mult_right_eq [symmetric])
    also have "(s2 * (1 + D priv)) mod n = (s2 * g) mod n"
      unfolding g_def by (rule mod_mult_right_eq [symmetric])
    also have "\<dots> = 1 mod n" using gi by (simp add: mult.commute)
    also have "(s1 * (1 mod n)) mod n = s1 mod n"
      by (simp add: mod_mult_right_eq)
    also have "\<dots> = (k - r * D priv) mod n"
      unfolding s1_def by (simp add: mod_diff_right_eq)
    finally show ?thesis .
  qed
  from sign rng eqn r_def show ?thesis by blast
qed

subsection \<open>Signing is a single attempt\<close>

text \<open>
  C2 (as the code has it). \<open>Sign\<close> draws one nonce and goes through the signing
  equations once; there is no retry. With the entropy supplied it consumes exactly one
  nonce's worth of bytes and returns \<open>R = (E + x1) mod N\<close> and \<open>S\<close> as computed, both
  in \<open>[0, N - 1]\<close>, where \<open>S * (1 + D) = k - R * D\<close> modulo \<open>N\<close> whenever \<open>1 + D\<close> is invertible.
\<close>

theorem Sign_single_attempt:
  assumes len: "32 \<le> length hash"
    and c: "c = Curve (PublicKey priv)"
    and n: "1 < N (Params c)"
    and m: "m = go_quot (BitSize (Params c)) 8 + 8" "0 \<le> m"
    and rd: "nat m \<le> length rand"
    and k: "k = SetBytes (take (nat m) rand) mod (N (Params c) - 1) + 1"
  shows "\<exists>r s. Sign rand priv hash = (Inr (r, s), drop (nat m) rand) \<and>
      r = (SetBytes (take 32 hash) + fst (ScalarBaseMult c (Bytes k))) mod N (Params c) \<and>
      0 \<le> r \<and> r < N (Params c) \<and> 0 \<le> s \<and> s < N (Params c) \<and>
      (coprime (1 + D priv) (N (Params c)) \<longrightarrow>
         (s * (1 + D priv)) mod N (Params c) = (k - r * D priv) mod N (Params c))"
proof -
  have g: "generateRandK rand (Curve (PublicKey priv)) = (Inr (Some k), drop (nat m) rand)"
    using generateRandK_success(1) [OF n m rd k] c by simp
  have n0: "0 < N (Params c)" using n by simp
  from Sign_equation [OF len g _ n0] c show ?thesis by simp
qed

theorem Sign_single_attempt_witness:
  "32 \<le> length hash_s_zero \<and> 1 < N (Params P256Sm2) \<and>
   nat 40 \<le> length (replicate 40 (0::byte)) \<and>
   (\<exists>r s. Sign (replicate 40 0) sm2_one_key hash_s_zero = (Inr (r, s), []) \<and>
      0 \<le> r \<and> r < N (Params P256Sm2) \<and> 0 \<le> s \<and> s < N (Params P256Sm2))"
proof -
  have len: "32 \<le> length hash_s_zero" by (simp add: hash_s_zero_def)
  have c: "P256Sm2 = Curve (PublicKey sm2_one_key)" by (simp add: sm2_one_key_fields)
  have n: "1 < N (Params P256Sm2)" by (simp add: sm2_N)
  have rd: "nat 40 \<le> length (replicate 40 (0::byte))" by simp
  from Sign_single_attempt [OF len c n sm2_read_length [symmetric] _ rd refl]
  show ?thesis using len n by auto
qed

text \<open>
  C2 as stated fails: with the all-zero entropy source the nonce is 1, and for the two
  hashes below \<open>Sign\<close> returns \<open>R = 0\<close> and \<open>S = 0\<close>.
\<close>

theorem Sign_no_retry:
  "Sign (replicate 40 0) sm2_one_key hash_r_zero =
     (Inr (0, 0x7fffffff7fffffffffffffffffffffffb901efb590e30295a9ddfa049ceaa092), []) \<and>
   Sign (replicate 40 0) sm2_one_key hash_s_zero = (Inr (1, 0), [])"
  by (simp add: Sign_zero_R Sign_zero_S)

lemma Sign_prefix:
  "32 \<le> length h1 \<Longrightarrow> 32 \<le> length h2 \<Longrightarrow> take 32 h1 = take 32 h2 \<Longrightarrow>
   Sign rand priv h1 = Sign rand priv h2"
  by (simp add: Sign_def Let_def)

subsection \<open>One doubling on the curve of the scheme\<close>

lemma finverse_unique:
  assumes m: "1 < m" and i: "0 \<le> i" "i < m" and xi: "(x * i) mod m = 1"
  shows "finverse m x = Inr i"
proof -
  from m have m0: "m \<noteq> 0" and am: "\<bar>m\<bar> = m" by simp_all
  obtain d u v where e: "egcd (x mod m) m = (d, u, v)"
    by (cases "egcd (x mod m) m") auto
  have "ModInverse (i + 1) x m = Inr i"
    by (rule ModInverse_unique [OF m i xi])
  then have du: "d = 1" "u mod m = i"
    using m0 am e by (auto simp: ModInverse_def split: if_splits)
  have "x mod m \<noteq> 0"
  proof
    assume "x mod m = 0"
    moreover have "(x * i) mod m = ((x mod m) * i) mod m"
      by (rule mod_mult_left_eq [symmetric])
    ultimately show False using xi by simp
  qed
  then show ?thesis using e du by (simp add: finverse_def)
qed

lemma sm2_double_half:
  "double sm2_params (Affine 0xA3721DB9207E1C46E24F06EC2D2D4D785617828A72B72F62370952E0572E033
     0x8CE19C69102762056B4EA4ED593676FD3F4CD5F2EA2AA138227401ACFD5708B4) =
   Inr (Affine 0x32C4AE2C1F1981195F9904466A39C9948FE30BBFF2660BE1715A4589334C74C7
     0x43C8C95C0B098863A642311C9496DEAC2F56788239D5B8C0FD20CD1ADEC60F5F)"
proof -
  have f1: "fmul 0xFFFFFFFEFFFFFFFFFFFFFFFFFFFFFFFFFFFFFFFF00000000FFFFFFFFFFFFFFFF 2 0x8CE19C69102762056B4EA4ED593676FD3F4CD5F2EA2AA138227401ACFD5708B4 = 0x19C338D3204EC40AD69D49DAB26CEDFA7E99ABE6D455426F44E80359FAAE1169"
    unfolding fmul_def by (rule mod_hint [where q = "0x1"]) (code_simp, simp_all)
  have g: "(0x19C338D3204EC40AD69D49DAB26CEDFA7E99ABE6D455426F44E80359FAAE1169 * 0xA89A6BADEA54AC6430439E12B4363479BEBE50EDAC4230D88D20B729EBAC5092) mod 0xFFFFFFFEFFFFFFFFFFFFFFFFFFFFFFFFFFFFFFFF00000000FFFFFFFFFFFFFFFF = (1::int)"
    by (rule mod_hint [where q = "0x10F7A790E66F64209310C81CE656374CC3F8C293FC43E09EC29CE8988DBD421F"]) (code_simp, simp_all)
  have f2: "finverse 0xFFFFFFFEFFFFFFFFFFFFFFFFFFFFFFFFFFFFFFFF00000000FFFFFFFFFFFFFFFF 0x19C338D3204EC40AD69D49DAB26CEDFA7E99ABE6D455426F44E80359FAAE1169 = Inr 0xA89A6BADEA54AC6430439E12B4363479BEBE50EDAC4230D88D20B729EBAC5092"
    by (rule finverse_unique [OF _ _ _ g]) simp_all
  have f3: "fmul 0xFFFFFFFEFFFFFFFFFFFFFFFFFFFFFFFFFFFFFFFF00000000FFFFFFFFFFFFFFFF 0xA3721DB9207E1C46E24F06EC2D2D4D785617828A72B72F62370952E0572E033 0xA3721DB9207E1C46E24F06EC2D2D4D785617828A72B72F62370952E0572E033 = 0xF6743FF2A8D5AD923BDB45C4DA151AE571B0A283ABC2E42922749D84B9DBEE3D"
    unfolding fmul_def by (rule mod_hint [where q = "0x685A84B8A40F8448A42E68661F51F5A39BBAADDD9271C95572FCE24A16A414"]) (code_simp, simp_all)
  have f4: "fmul 0xFFFFFFFEFFFFFFFFFFFFFFFFFFFFFFFFFFFFFFFF00000000FFFFFFFFFFFFFFFF 3 0xF6743FF2A8D5AD923BDB45C4DA151AE571B0A283ABC2E42922749D84B9DBEE3D = 0xE35CBFD9FA8108B6B391D14E8E3F50B05511E78D0348AC79675DD88E2D93CAB9"
    unfolding fmul_def by (rule mod_hint [where q = "0x2"]) (code_simp, simp_all)
  have f5: "fadd 0xFFFFFFFEFFFFFFFFFFFFFFFFFFFFFFFFFFFFFFFF00000000FFFFFFFFFFFFFFFF 0xE35CBFD9FA8108B6B391D14E8E3F50B05511E78D0348AC79675DD88E2D93CAB9 0xFFFFFFFEFFFFFFFFFFFFFFFFFFFFFFFFFFFFFFFF00000000FFFFFFFFFFFFFFFC = 0xE35CBFD9FA8108B6B391D14E8E3F50B05511E78D0348AC79675DD88E2D93CAB6"
    unfolding fadd_def by (rule mod_hint [where q = "0x1"]) (code_simp, simp_all)
  have f6: "fmul 0xFFFFFFFEFFFFFFFFFFFFFFFFFFFFFFFFFFFFFFFF00000000FFFFFFFFFFFFFFFF 0xE35CBFD9FA8108B6B391D14E8E3F50B05511E78D0348AC79675DD88E2D93CAB6 0xA89A6BADEA54AC6430439E12B4363479BEBE50EDAC4230D88D20B729EBAC5092 = 0xEAB2D6D6FAE35418207ACB4327AB71C7362F42D7CA18527F54142AC6E43CC7E5"
    unfolding fmul_def by (rule mod_hint [where q = "0x95BE0355453F1F961F5512943A4EF8BF2A60506C9947242C82315FEB72524C19"]) (code_simp, simp_all)
  have f7: "fmul 0xFFFFFFFEFFFFFFFFFFFFFFFFFFFFFFFFFFFFFFFF00000000FFFFFFFFFFFFFFFF 0xEAB2D6D6FAE35418207ACB4327AB71C7362F42D7CA18527F54142AC6E43CC7E5 0xEAB2D6D6FAE35418207ACB4327AB71C7362F42D7CA18527F54142AC6E43CC7E5 = 0x4732F1E3432944A23BE2E523EFDF73439AA5FC1140BCF1CDB83B6FE53E32352D"
    unfolding fmul_def by (rule mod_hint [where q = "0xD72B6DB15114078AD88B66A53D6D5E02ED7AB630C832E0D4695AC32B06C46254"]) (code_simp, simp_all)
  have f8: "fadd 0xFFFFFFFEFFFFFFFFFFFFFFFFFFFFFFFFFFFFFFFF00000000FFFFFFFFFFFFFFFF 0xA3721DB9207E1C46E24F06EC2D2D4D785617828A72B72F62370952E0572E033 0xA3721DB9207E1C46E24F06EC2D2D4D785617828A72B72F62370952E0572E033 = 0x146E43B7240FC388DC49E0DD85A5A9AF0AC2F0514E56E5EC46E12A5C0AE5C066"
    unfolding fadd_def by (rule mod_hint [where q = "0x0"]) (code_simp, simp_all)
  have f9: "fsub 0xFFFFFFFEFFFFFFFFFFFFFFFFFFFFFFFFFFFFFFFF00000000FFFFFFFFFFFFFFFF 0x4732F1E3432944A23BE2E523EFDF73439AA5FC1140BCF1CDB83B6FE53E32352D 0x146E43B7240FC388DC49E0DD85A5A9AF0AC2F0514E56E5EC46E12A5C0AE5C066 = 0x32C4AE2C1F1981195F9904466A39C9948FE30BBFF2660BE1715A4589334C74C7"
    unfolding fsub_def by (rule mod_hint [where q = "0x0"]) (code_simp, simp_all)
  have f10: "fsub 0xFFFFFFFEFFFFFFFFFFFFFFFFFFFFFFFFFFFFFFFF00000000FFFFFFFFFFFFFFFF 0xA3721DB9207E1C46E24F06EC2D2D4D785617828A72B72F62370952E0572E033 0x32C4AE2C1F1981195F9904466A39C9948FE30BBFF2660BE1715A4589334C74C7 = 0xD77273AE72EE60AB0E8BEC2858990B42F57E6C67B4C56715B2164FA4D2266B6B"
    unfolding fsub_def by (rule mod_hint [where q = "- 0x1"]) (code_simp, simp_all)
  have f11: "fmul 0xFFFFFFFEFFFFFFFFFFFFFFFFFFFFFFFFFFFFFFFF00000000FFFFFFFFFFFFFFFF 0xEAB2D6D6FAE35418207ACB4327AB71C7362F42D7CA18527F54142AC6E43CC7E5 0xD77273AE72EE60AB0E8BEC2858990B42F57E6C67B4C56715B2164FA4D2266B6B = 0xD0AA65C51B30EA691190D609EDCD55A96EA34E75240059F91F94CEC7DC1D1813"
    unfolding fmul_def by (rule mod_hint [where q = "0xC585202143648C5EF9A6CC96269810E4D7D9661B461B440AAC38558D892AD45C"]) (code_simp, simp_all)
  have f12: "fsub 0xFFFFFFFEFFFFFFFFFFFFFFFFFFFFFFFFFFFFFFFF00000000FFFFFFFFFFFFFFFF 0xD0AA65C51B30EA691190D609EDCD55A96EA34E75240059F91F94CEC7DC1D1813 0x8CE19C69102762056B4EA4ED593676FD3F4CD5F2EA2AA138227401ACFD5708B4 = 0x43C8C95C0B098863A642311C9496DEAC2F56788239D5B8C0FD20CD1ADEC60F5F"
    unfolding fsub_def by (rule mod_hint [where q = "0x0"]) (code_simp, simp_all)
  show ?thesis
    by (simp add: double_def Let_def sm2_params_def bind_res_def f1 f2 f3 f4 f5 f6 f7 f8 f9 f10 f11 f12)
qed

lemma sm2_half_on_curve:
  "isOnCurve sm2_params (Affine 0xA3721DB9207E1C46E24F06EC2D2D4D785617828A72B72F62370952E0572E033
     0x8CE19C69102762056B4EA4ED593676FD3F4CD5F2EA2AA138227401ACFD5708B4)"
proof -
  have f1: "fmul 0xFFFFFFFEFFFFFFFFFFFFFFFFFFFFFFFFFFFFFFFF00000000FFFFFFFFFFFFFFFF 0x8CE19C69102762056B4EA4ED593676FD3F4CD5F2EA2AA138227401ACFD5708B4 0x8CE19C69102762056B4EA4ED593676FD3F4CD5F2EA2AA138227401ACFD5708B4 = 0xA207A38CF52D8E1050A21B3055E93B91741B70B4B1D489CD5A67317A0F149170"
    unfolding fmul_def by (rule mod_hint [where q = "0x4D8789E787713926031FD3511607737A4BEA00825C1BA1DD918CF2CF5C70D2E0"]) (code_simp, simp_all)
  have f2: "fmul 0xFFFFFFFEFFFFFFFFFFFFFFFFFFFFFFFFFFFFFFFF00000000FFFFFFFFFFFFFFFF 0xA3721DB9207E1C46E24F06EC2D2D4D785617828A72B72F62370952E0572E033 0xA3721DB9207E1C46E24F06EC2D2D4D785617828A72B72F62370952E0572E033 = 0xF6743FF2A8D5AD923BDB45C4DA151AE571B0A283ABC2E42922749D84B9DBEE3D"
    unfolding fmul_def by (rule mod_hint [where q = "0x685A84B8A40F8448A42E68661F51F5A39BBAADDD9271C95572FCE24A16A414"]) (code_simp, simp_all)
  have f3: "fmul 0xFFFFFFFEFFFFFFFFFFFFFFFFFFFFFFFFFFFFFFFF00000000FFFFFFFFFFFFFFFF 0xA3721DB9207E1C46E24F06EC2D2D4D785617828A72B72F62370952E0572E033 0xF6743FF2A8D5AD923BDB45C4DA151AE571B0A283ABC2E42922749D84B9DBEE3D = 0x97C30E810DA5D5294DB64E30CEFCB07010A84F3991AB531CE6FC33C2D1D92376"
    unfolding fmul_def by (rule mod_hint [where q = "0x9D59E119FD71C1B05EF190E42BC896A38C5811903D586A34A52502412694D4F"]) (code_simp, simp_all)
  have f4: "fmul 0xFFFFFFFEFFFFFFFFFFFFFFFFFFFFFFFFFFFFFFFF00000000FFFFFFFFFFFFFFFF 0xFFFFFFFEFFFFFFFFFFFFFFFFFFFFFFFFFFFFFFFF00000000FFFFFFFFFFFFFFFC 0xA3721DB9207E1C46E24F06EC2D2D4D785617828A72B72F62370952E0572E033 = 0xE15A9A6C49E85AB2B5912EB3B78781796FDB97850A7DA71E95AE4075EFA75F66"
    unfolding fmul_def by (rule mod_hint [where q = "0xA3721DB9207E1C46E24F06EC2D2D4D785617828A72B72F62370952E0572E032"]) (code_simp, simp_all)
  have f5: "fadd 0xFFFFFFFEFFFFFFFFFFFFFFFFFFFFFFFFFFFFFFFF00000000FFFFFFFFFFFFFFFF 0x97C30E810DA5D5294DB64E30CEFCB07010A84F3991AB531CE6FC33C2D1D92376 0xE15A9A6C49E85AB2B5912EB3B78781796FDB97850A7DA71E95AE4075EFA75F66 = 0x791DA8EE578E2FDC03477CE4868431E98083E6BF9C28FA3A7CAA7438C18082DD"
    unfolding fadd_def by (rule mod_hint [where q = "0x1"]) (code_simp, simp_all)
  have f6: "fadd 0xFFFFFFFEFFFFFFFFFFFFFFFFFFFFFFFFFFFFFFFF00000000FFFFFFFFFFFFFFFF 0x791DA8EE578E2FDC03477CE4868431E98083E6BF9C28FA3A7CAA7438C18082DD 0x28E9FA9E9D9F5E344D5A9E4BCF6509A7F39789F515AB8F92DDBCBD414D940E93 = 0xA207A38CF52D8E1050A21B3055E93B91741B70B4B1D489CD5A67317A0F149170"
    unfolding fadd_def by (rule mod_hint [where q = "0x0"]) (code_simp, simp_all)
  show ?thesis
    by (simp add: isOnCurve_def sm2_params_def f1 f2 f3 f4 f5 f6)
qed

subsection \<open>The verification equation\<close>

lemma Bytes_two: "Bytes 2 = [2]"
proof -
  have "nat_bytes 2 = nat_bytes 0 @ [2]"
    by (subst nat_bytes.simps) simp
  then show ?thesis by (simp add: Bytes_def nat_bytes.simps [of 0])
qed

lemma SetBytes_two: "SetBytes [2] = 2"
  by (simp add: SetBytes_def)

lemma scalarMultiply_two: "scalarMultiply cp 2 pt = double cp pt"
  by (subst scalarMultiply.simps) (simp add: scalarMultiply_one split: sum.splits)

lemma sm2_half_doubled:
  "ScalarMult P256Sm2 (X sm2_half_key, Y sm2_half_key) [2] =
     (0x32C4AE2C1F1981195F9904466A39C9948FE30BBFF2660BE1715A4589334C74C7,
      0x43C8C95C0B098863A642311C9496DEAC2F56788239D5B8C0FD20CD1ADEC60F5F)"
  by (simp add: P256Sm2_def curve_of_def sm2_half_key_def SetBytes_two of_xy_def
      scalarMultiply_two sm2_double_half to_xy_def)

lemma sm2_cancel:
  "add sm2_params
     (Affine 0x32C4AE2C1F1981195F9904466A39C9948FE30BBFF2660BE1715A4589334C74C7
        0x43C8C95C0B098863A642311C9496DEAC2F56788239D5B8C0FD20CD1ADEC60F5F)
     (Affine (Gx sm2_params) (Gy sm2_params)) = Inr Infinity"
  by (simp add: add_def Let_def sm2_params_def fadd_def)

lemma sm2_half_sum:
  "Add P256Sm2 (ScalarMult P256Sm2 (X sm2_half_key, Y sm2_half_key) (Bytes 2))
     (ScalarBaseMult P256Sm2 (Bytes 1)) = (0, 0)"
proof -
  have "Add P256Sm2
      (0x32C4AE2C1F1981195F9904466A39C9948FE30BBFF2660BE1715A4589334C74C7,
       0x43C8C95C0B098863A642311C9496DEAC2F56788239D5B8C0FD20CD1ADEC60F5F)
      (Gx sm2_params, Gy sm2_params) = (0, 0)"
    using sm2_cancel
    by (simp add: P256Sm2_def curve_of_def of_xy_def to_xy_def sm2_Gx)
  then show ?thesis
    by (simp add: Bytes_two Bytes_one sm2_half_doubled sm2_base_point)
qed

lemma Verify_equation:
  assumes "0 < r" "r < N (Params (Curve pub))" "0 < s" "s < N (Params (Curve pub))"
  shows "Verify pub hash r s =
    ((SetBytes hash +
      fst (Add (Curve pub) (ScalarMult (Curve pub) (X pub, Y pub) (Bytes (r + s)))
             (ScalarBaseMult (Curve pub) (Bytes s)))) mod N (Params (Curve pub)) = r)"
  using assms by (simp add: Verify_def Let_def Mod_def split: prod.splits)

lemma SetBytes_hash_one: "SetBytes hash_one = 1"
  by (simp add: hash_one_def SetBytes_snoc SetBytes_zeros)

lemma SetBytes_hash_one_longer: "SetBytes (hash_one @ [0]) = 256"
  by (simp add: SetBytes_snoc SetBytes_hash_one)

lemma sm2_half_key_curve: "Curve sm2_half_key = P256Sm2"
  by (simp add: sm2_half_key_def)

lemma Verify_half_one: "Verify sm2_half_key hash_one 1 1 = True"
  by (subst Verify_equation)
     (simp_all add: sm2_half_key_curve sm2_N sm2_half_sum SetBytes_hash_one small_mod)

lemma Verify_half_longer: "Verify sm2_half_key (hash_one @ [0]) 1 1 = False"
  by (subst Verify_equation)
     (simp_all add: sm2_half_key_curve sm2_N sm2_half_sum SetBytes_hash_one_longer small_mod)

subsection \<open>What the verifier checks\<close>

text \<open>
  C4 (as the code has it). For \<open>R\<close> and \<open>S\<close> in \<open>[1, N - 1]\<close> the verifier has no
  further rejection: \<open>R + S\<close> goes to the scalar multiplication unreduced, neither
  \<open>(R + S) mod N = 0\<close> nor a result at infinity is tested, and \<open>Verify\<close> is true exactly
  when \<open>(E + x1) mod N = R\<close> for the first coordinate \<open>x1\<close> that \<open>Add\<close> returns. When
  that result is the pair \<open>(0, 0)\<close>, which stands for the point at infinity, \<open>Verify\<close> is
  true exactly when \<open>E mod N = R\<close>.
\<close>

theorem Verify_in_range:
  assumes "0 < r" "r < N (Params (Curve pub))" "0 < s" "s < N (Params (Curve pub))"
    and pt: "pt = Add (Curve pub) (ScalarMult (Curve pub) (X pub, Y pub) (Bytes (r + s)))
                    (ScalarBaseMult (Curve pub) (Bytes s))"
  shows "Verify pub hash r s = ((SetBytes hash + fst pt) mod N (Params (Curve pub)) = r) \<and>
         (pt = (0, 0) \<longrightarrow> Verify pub hash r s = (SetBytes hash mod N (Params (Curve pub)) = r))"
  using Verify_equation [OF assms(1-4), of hash] pt by auto

theorem Verify_in_range_witness:
  "(0::int) < 1 \<and> 1 < N (Params (Curve sm2_half_key)) \<and>
   Add (Curve sm2_half_key)
     (ScalarMult (Curve sm2_half_key) (X sm2_half_key, Y sm2_half_key) (Bytes (1 + 1)))
     (ScalarBaseMult (Curve sm2_half_key) (Bytes 1)) = (0, 0) \<and>
   Verify sm2_half_key hash_one 1 1 = (SetBytes hash_one mod N (Params (Curve sm2_half_key)) = 1)"
proof -
  have n: "1 < N (Params (Curve sm2_half_key))"
    by (simp add: sm2_half_key_curve sm2_N)
  have pt: "Add (Curve sm2_half_key)
     (ScalarMult (Curve sm2_half_key) (X sm2_half_key, Y sm2_half_key) (Bytes (1 + 1)))
     (ScalarBaseMult (Curve sm2_half_key) (Bytes 1)) = (0, 0)"
    by (simp add: sm2_half_key_curve sm2_half_sum)
  from Verify_in_range [OF _ n _ n refl, of hash_one] pt n show ?thesis by simp
qed

text \<open>
  C4 as stated fails: for the key below, \<open>R = S = 1\<close> and the hash of value 1, the point
  \<open>2 * P + 1 * G\<close> is the point at infinity and \<open>Verify\<close> returns true.
\<close>

theorem Verify_accepts_infinity:
  "isOnCurve sm2_params (Affine (X sm2_half_key) (Y sm2_half_key)) \<and>
   scalarMultiply sm2_params 2 (Affine (X sm2_half_key) (Y sm2_half_key)) =
     Inr (Affine 0x32C4AE2C1F1981195F9904466A39C9948FE30BBFF2660BE1715A4589334C74C7
            0x43C8C95C0B098863A642311C9496DEAC2F56788239D5B8C0FD20CD1ADEC60F5F) \<and>
   scalarMultiplyBase sm2_params 1 = Inr (Affine (Gx sm2_params) (Gy sm2_params)) \<and>
   add sm2_params
     (Affine 0x32C4AE2C1F1981195F9904466A39C9948FE30BBFF2660BE1715A4589334C74C7
        0x43C8C95C0B098863A642311C9496DEAC2F56788239D5B8C0FD20CD1ADEC60F5F)
     (Affine (Gx sm2_params) (Gy sm2_params)) = Inr Infinity \<and>
   Verify sm2_half_key hash_one 1 1 = True"
  using sm2_half_on_curve sm2_double_half sm2_cancel Verify_half_one
  by (simp add: sm2_half_key_def scalarMultiply_two scalarMultiplyBase_def scalarMultiply_one)

subsection \<open>How much of the hash is used\<close>

text \<open>
  C9. \<open>Sign\<close> uses the first 32 bytes of the hash only: two hashes of at least 32 bytes
  with the same first 32 bytes give the same result for the same entropy source and
  key. \<open>Verify\<close> converts the whole hash: the hash of value 1 and the same hash followed
  by a zero byte agree on their first 32 bytes and are verified differently.
\<close>

theorem Sign_truncates_hash:
  "(32 \<le> length h1 \<and> 32 \<le> length h2 \<and> take 32 h1 = take 32 h2 \<longrightarrow>
      Sign rand priv h1 = Sign rand priv h2) \<and>
   take 32 hash_one = take 32 (hash_one @ [0]) \<and>
   Verify sm2_half_key hash_one 1 1 \<noteq> Verify sm2_half_key (hash_one @ [0]) 1 1"
  using Sign_prefix [of h1 h2 rand priv] Verify_half_one Verify_half_longer
  by (simp add: hash_one_def)

theorem Sign_truncates_hash_witness:
  "32 \<le> length hash_one \<and> 32 \<le> length (hash_one @ [0]) \<and>
   take 32 hash_one = take 32 (hash_one @ [0]) \<and>
   Sign (replicate 40 0) sm2_one_key hash_one = Sign (replicate 40 0) sm2_one_key (hash_one @ [0])"
proof -
  have "32 \<le> length hash_one \<and> 32 \<le> length (hash_one @ [0]) \<and>
      take 32 hash_one = take 32 (hash_one @ [0])"
    by (simp add: hash_one_def)
  with Sign_truncates_hash [of hash_one "hash_one @ [0]" "replicate 40 0" sm2_one_key]
  show ?thesis by blast
qed

end
